theory Spec2Isabelle
  imports Complex_Main "HOL-Library.AList"
begin

section \<open>JavaScript values used by the engine\<close>

text \<open>
  The engine in \<^verbatim>\<open>src/frontend/src/engine/calculator.js\<close> works on hour counts.
  Hours are modelled as integers. A number that the engine computes by reading a missing
  property and doing arithmetic on it is \<^verbatim>\<open>NaN\<close> in JavaScript; the working tables of
  the allocation loop therefore hold values of type \<open>jsnum\<close>.
  Strings are lists of characters; \<^verbatim>\<open>toLowerCase\<close> is modelled on the ASCII letters.
  Objects used as dictionaries are maps, or association lists where the code iterates
  over them and combines the entries (\<^verbatim>\<open>Object.entries\<close>, \<^verbatim>\<open>Object.values\<close>).
\<close>

type_synonym month = string
type_synonym bucket_key = string
type_synonym project_ident = string

datatype jsnum = Num int | NaN

text \<open>\<^verbatim>\<open>x || 0\<close> on a property that holds an hour count or is missing.\<close>

definition or_zero :: "int option \<Rightarrow> int" where
  "or_zero x = (case x of None \<Rightarrow> 0 | Some v \<Rightarrow> v)"

text \<open>\<^verbatim>\<open>x || 0\<close> on a property of a working table: missing, \<^verbatim>\<open>NaN\<close> and 0 all give 0.\<close>

definition num_or_zero :: "jsnum option \<Rightarrow> int" where
  "num_or_zero x = (case x of Some (Num v) \<Rightarrow> v | _ \<Rightarrow> 0)"

text \<open>\<^verbatim>\<open>obj[k] += d\<close> and \<^verbatim>\<open>obj[k] -= d\<close>: arithmetic on a missing property gives \<^verbatim>\<open>NaN\<close>.\<close>

definition add_assign :: "(month \<rightharpoonup> jsnum) \<Rightarrow> month \<Rightarrow> int \<Rightarrow> (month \<rightharpoonup> jsnum)" where
  "add_assign obj k d = obj(k \<mapsto> (case obj k of Some (Num v) \<Rightarrow> Num (v + d) | _ \<Rightarrow> NaN))"

definition sub_assign :: "(month \<rightharpoonup> jsnum) \<Rightarrow> month \<Rightarrow> int \<Rightarrow> (month \<rightharpoonup> jsnum)" where
  "sub_assign obj k d = obj(k \<mapsto> (case obj k of Some (Num v) \<Rightarrow> Num (v - d) | _ \<Rightarrow> NaN))"

text \<open>\<^verbatim>\<open>Math.round\<close>: nearest integer, ties towards plus infinity (exact arithmetic).\<close>

definition math_round :: "rat \<Rightarrow> int" where
  "math_round x = \<lfloor>x + 1 / 2\<rfloor>"

text \<open>Decimal rendering of a natural number, as a template literal prints it.\<close>

fun string_of_nat :: "nat \<Rightarrow> string" where
  "string_of_nat n =
     (if n < 10 then [char_of (48 + n)]
      else string_of_nat (n div 10) @ [char_of (48 + n mod 10)])"

definition toLowerCase_char :: "char \<Rightarrow> char" where
  "toLowerCase_char c =
     (let n = (of_char c :: nat) in if 65 \<le> n \<and> n \<le> 90 then char_of (n + 32) else c)"

definition toLowerCase :: "string \<Rightarrow> string" where
  "toLowerCase s = map toLowerCase_char s"

section \<open>Data model\<close>

record bucket =
  bucket_id :: string
  bucket_team :: string
  bucket_role :: string
  bucket_location :: string
  monthly_capacity :: "month \<rightharpoonup> int"
  isVirtual :: bool

record virtual_resource =
  vr_team :: string
  vr_role :: string
  vr_location :: string
  hoursPerMonth :: int

record project =
  project_id :: project_ident
  project_name :: string
  project_team :: string
  project_role :: string
  project_location :: string
  monthly_demand :: "(month \<times> int) list"
  total_demand :: int
  timelineShift :: "int option"

datatype status = NoDemand | Staffed | Partial | Unstaffed

record month_status =
  status :: status
  demand :: int
  allocated :: int
  deficit :: int

text \<open>
  \<^verbatim>\<open>{...project, priority, monthlyStatus, totalDeficit, bucketKey}\<close>: the fields copied
  by the spread are kept together in \<open>ps_project\<close>; \<open>overallStatus\<close> is missing until
  step 7 assigns it.
\<close>

record project_status =
  ps_project :: project
  priority :: nat
  monthlyStatus :: "(month \<times> month_status) list"
  ps_totalDeficit :: int
  bucketKey :: bucket_key
  overallStatus :: "status option"

record bucket_utilization =
  bu_bucket :: bucket
  monthly_utilization :: "month \<rightharpoonup> jsnum"
  monthly_consumed :: "month \<rightharpoonup> jsnum"
  monthly_remaining :: "month \<rightharpoonup> jsnum"

text \<open>The local tables of \<^verbatim>\<open>calculateScenario\<close> that the allocation loop updates.\<close>

record alloc_state =
  remainingCapacity :: "bucket_key \<rightharpoonup> (month \<rightharpoonup> jsnum)"
  st_projectStatus :: "project_ident \<rightharpoonup> project_status"
  st_bucketUtilization :: "bucket_key \<rightharpoonup> bucket_utilization"
  st_totalDeficit :: int

record scenario_result =
  effectiveCapacity :: "bucket_key \<rightharpoonup> bucket"
  bucketUtilization :: "bucket_key \<rightharpoonup> bucket_utilization"
  projectStatus :: "project_ident \<rightharpoonup> project_status"
  totalDeficit :: int
  result_months :: "month list"

section \<open>getBucketKey\<close>

definition getBucketKey :: "string \<Rightarrow> string \<Rightarrow> string \<Rightarrow> bucket_key" where
  "getBucketKey team role location = toLowerCase (team @ ''|'' @ role @ ''|'' @ location)"

section \<open>calculateEffectiveCapacity\<close>

text \<open>\<^verbatim>\<open>resource.hoursPerMonth || 160\<close>\<close>

definition hours_or_default :: "virtual_resource \<Rightarrow> int" where
  "hours_or_default resource = (if hoursPerMonth resource = 0 then 160 else hoursPerMonth resource)"

text \<open>The first \<^verbatim>\<open>forEach\<close>: each baseline bucket is copied under its key.\<close>

definition add_baseline_bucket :: "bucket \<Rightarrow> (bucket_key \<rightharpoonup> bucket) \<Rightarrow> (bucket_key \<rightharpoonup> bucket)" where
  "add_baseline_bucket b ec =
     ec(getBucketKey (bucket_team b) (bucket_role b) (bucket_location b) \<mapsto> b)"

text \<open>
  The body of the second \<^verbatim>\<open>forEach\<close>. \<open>now\<close> is the value \<^verbatim>\<open>Date.now()\<close> returns
  while this resource is processed.
\<close>

definition add_virtual_resource ::
  "month list \<Rightarrow> nat \<Rightarrow> virtual_resource \<Rightarrow> (bucket_key \<rightharpoonup> bucket) \<Rightarrow> (bucket_key \<rightharpoonup> bucket)" where
  "add_virtual_resource months now resource ec =
     (let key = getBucketKey (vr_team resource) (vr_role resource) (vr_location resource) in
      case ec key of
        Some b \<Rightarrow>
          ec(key \<mapsto> b\<lparr>monthly_capacity :=
               fold (\<lambda>month cap. cap(month \<mapsto> or_zero (cap month) + hours_or_default resource))
                 months (monthly_capacity b)\<rparr>)
      | None \<Rightarrow>
          ec(key \<mapsto> \<lparr>bucket_id = ''virtual_'' @ string_of_nat now,
                      bucket_team = vr_team resource,
                      bucket_role = vr_role resource,
                      bucket_location = vr_location resource,
                      monthly_capacity =
                        fold (\<lambda>month cap. cap(month \<mapsto> hours_or_default resource)) months Map.empty,
                      isVirtual = True\<rparr>))"

text \<open>
  \<open>clock i\<close> is the clock reading while the \<open>i\<close>-th virtual resource is processed.
\<close>

fun add_virtual_resources ::
  "month list \<Rightarrow> (nat \<Rightarrow> nat) \<Rightarrow> nat \<Rightarrow> virtual_resource list \<Rightarrow>
   (bucket_key \<rightharpoonup> bucket) \<Rightarrow> (bucket_key \<rightharpoonup> bucket)" where
  "add_virtual_resources months clock i [] ec = ec"
| "add_virtual_resources months clock i (resource # rest) ec =
     add_virtual_resources months clock (Suc i) rest
       (add_virtual_resource months (clock i) resource ec)"

definition calculateEffectiveCapacity ::
  "(nat \<Rightarrow> nat) \<Rightarrow> bucket list \<Rightarrow> virtual_resource list \<Rightarrow> month list \<Rightarrow> (bucket_key \<rightharpoonup> bucket)" where
  "calculateEffectiveCapacity clock baselineCapacity virtualResources months =
     add_virtual_resources months clock 0 virtualResources
       (fold add_baseline_bucket baselineCapacity Map.empty)"

section \<open>applyTimelineShifts\<close>

definition month_index :: "month list \<Rightarrow> (month \<rightharpoonup> nat)" where
  "month_index months =
     fold (\<lambda>(idx, month) monthIndex. monthIndex(month \<mapsto> idx)) (enumerate 0 months) Map.empty"

text \<open>The callback of \<^verbatim>\<open>Object.entries(project.monthly_demand).forEach\<close>.\<close>

definition shift_entry ::
  "month list \<Rightarrow> int \<Rightarrow> month \<times> int \<Rightarrow> (month \<times> int) list \<Rightarrow> (month \<times> int) list" where
  "shift_entry months shift entry shiftedDemand =
     (case month_index months (fst entry) of
        None \<Rightarrow> shiftedDemand
      | Some currentIdx \<Rightarrow>
          (let newIdx = int currentIdx + shift in
           if 0 \<le> newIdx \<and> newIdx < int (length months) then
             (let newMonth = months ! nat newIdx in
              AList.update newMonth (or_zero (map_of shiftedDemand newMonth) + snd entry) shiftedDemand)
           else shiftedDemand))"

text \<open>
  The callback of \<^verbatim>\<open>projects.map\<close>. A missing shift and the shift 0 return the project
  itself.
\<close>

definition shift_project :: "(project_ident \<rightharpoonup> int) \<Rightarrow> month list \<Rightarrow> project \<Rightarrow> project" where
  "shift_project timelineShifts months p =
     (case timelineShifts (project_id p) of
        None \<Rightarrow> p
      | Some shift \<Rightarrow>
          if shift = 0 then p
          else p\<lparr>monthly_demand := fold (shift_entry months shift) (monthly_demand p) [],
                 timelineShift := Some shift\<rparr>)"

definition applyTimelineShifts ::
  "project list \<Rightarrow> (project_ident \<rightharpoonup> int) \<Rightarrow> month list \<Rightarrow> project list" where
  "applyTimelineShifts projects timelineShifts months = map (shift_project timelineShifts months) projects"

section \<open>calculateScenario\<close>

subsection \<open>Steps 3 to 5: lookup table and tracking structures\<close>

definition project_map :: "project list \<Rightarrow> (project_ident \<rightharpoonup> project)" where
  "project_map shiftedProjects = fold (\<lambda>p projectMap. projectMap(project_id p \<mapsto> p)) shiftedProjects Map.empty"

definition init_remaining ::
  "(bucket_key \<rightharpoonup> bucket) \<Rightarrow> (bucket_key \<rightharpoonup> (month \<rightharpoonup> jsnum))" where
  "init_remaining ec = (\<lambda>key. map_option (\<lambda>b. map_option Num \<circ> monthly_capacity b) (ec key))"

definition init_bucket_utilization :: "month list \<Rightarrow> bucket \<Rightarrow> bucket_utilization" where
  "init_bucket_utilization months b =
     fold (\<lambda>month u.
             u\<lparr>monthly_consumed := (monthly_consumed u)(month \<mapsto> Num 0),
               monthly_remaining := (monthly_remaining u)(month \<mapsto> Num (or_zero (monthly_capacity b month))),
               monthly_utilization := (monthly_utilization u)(month \<mapsto> Num 0)\<rparr>)
       months
       \<lparr>bu_bucket = b, monthly_utilization = Map.empty, monthly_consumed = Map.empty,
        monthly_remaining = Map.empty\<rparr>"

definition init_project_status ::
  "(project_ident \<rightharpoonup> project) \<Rightarrow> project_ident list \<Rightarrow> (project_ident \<rightharpoonup> project_status)" where
  "init_project_status projectMap priorityOrder =
     fold (\<lambda>(idx, projectId) ps.
             case projectMap projectId of
               None \<Rightarrow> ps
             | Some p \<Rightarrow>
                 ps(projectId \<mapsto>
                      \<lparr>ps_project = p, priority = idx + 1, monthlyStatus = [], ps_totalDeficit = 0,
                       bucketKey = getBucketKey (project_team p) (project_role p) (project_location p),
                       overallStatus = None\<rparr>))
       (enumerate 0 priorityOrder) Map.empty"

definition init_state ::
  "(bucket_key \<rightharpoonup> bucket) \<Rightarrow> (project_ident \<rightharpoonup> project) \<Rightarrow> project_ident list \<Rightarrow> month list \<Rightarrow> alloc_state" where
  "init_state ec projectMap priorityOrder months =
     \<lparr>remainingCapacity = init_remaining ec,
      st_projectStatus = init_project_status projectMap priorityOrder,
      st_bucketUtilization = (\<lambda>key. map_option (init_bucket_utilization months) (ec key)),
      st_totalDeficit = 0\<rparr>"

subsection \<open>Step 6: the month-by-month allocation loop\<close>

text \<open>
  \<^verbatim>\<open>projectStatus[projectId].monthlyStatus[month] = r\<close> and
  \<^verbatim>\<open>projectStatus[projectId].totalDeficit += d\<close>. The entry exists whenever the loop
  reaches these statements, because step 5 created it for every id of the priority order
  that has a project record (lemma \<open>init_project_status_defined\<close> below); on a missing
  entry the source would raise a TypeError, and the model leaves the table unchanged.
\<close>

definition set_monthly_status ::
  "project_ident \<Rightarrow> month \<Rightarrow> month_status \<Rightarrow> (project_ident \<rightharpoonup> project_status) \<Rightarrow>
   (project_ident \<rightharpoonup> project_status)" where
  "set_monthly_status projectId month r ps =
     (case ps projectId of
        None \<Rightarrow> ps
      | Some s \<Rightarrow> ps(projectId \<mapsto> s\<lparr>monthlyStatus := AList.update month r (monthlyStatus s)\<rparr>))"

definition add_project_deficit ::
  "project_ident \<Rightarrow> int \<Rightarrow> (project_ident \<rightharpoonup> project_status) \<Rightarrow> (project_ident \<rightharpoonup> project_status)" where
  "add_project_deficit projectId d ps =
     (case ps projectId of
        None \<Rightarrow> ps
      | Some s \<Rightarrow> ps(projectId \<mapsto> s\<lparr>ps_totalDeficit := ps_totalDeficit s + d\<rparr>))"

text \<open>The body of the inner \<^verbatim>\<open>priorityOrder.forEach\<close>.\<close>

definition process_project ::
  "(project_ident \<rightharpoonup> project) \<Rightarrow> month \<Rightarrow> project_ident \<Rightarrow> alloc_state \<Rightarrow> alloc_state" where
  "process_project projectMap month projectId st =
     (case projectMap projectId of
        None \<Rightarrow> st
      | Some p \<Rightarrow>
          (let bKey = getBucketKey (project_team p) (project_role p) (project_location p);
               dem = or_zero (map_of (monthly_demand p) month);
               available = (case remainingCapacity st bKey of
                              None \<Rightarrow> 0
                            | Some rc \<Rightarrow> num_or_zero (rc month))
           in
           if dem = 0 then
             st\<lparr>st_projectStatus :=
                  set_monthly_status projectId month
                    \<lparr>status = NoDemand, demand = 0, allocated = 0, deficit = 0\<rparr>
                    (st_projectStatus st)\<rparr>
           else if dem \<le> available then
             st\<lparr>st_projectStatus :=
                  set_monthly_status projectId month
                    \<lparr>status = Staffed, demand = dem, allocated = dem, deficit = 0\<rparr>
                    (st_projectStatus st),
                remainingCapacity :=
                  (case remainingCapacity st bKey of
                     None \<Rightarrow> remainingCapacity st
                   | Some rc \<Rightarrow> (remainingCapacity st)(bKey \<mapsto> sub_assign rc month dem)),
                st_bucketUtilization :=
                  (case st_bucketUtilization st bKey of
                     None \<Rightarrow> st_bucketUtilization st
                   | Some u \<Rightarrow>
                       (st_bucketUtilization st)(bKey \<mapsto>
                          u\<lparr>monthly_consumed := add_assign (monthly_consumed u) month dem,
                            monthly_remaining := sub_assign (monthly_remaining u) month dem\<rparr>))\<rparr>
           else if 0 < available then
             st\<lparr>st_projectStatus :=
                  add_project_deficit projectId (dem - available)
                    (set_monthly_status projectId month
                       \<lparr>status = Partial, demand = dem, allocated = available,
                        deficit = dem - available\<rparr>
                       (st_projectStatus st)),
                remainingCapacity :=
                  (case remainingCapacity st bKey of
                     None \<Rightarrow> remainingCapacity st
                   | Some rc \<Rightarrow> (remainingCapacity st)(bKey \<mapsto> rc(month \<mapsto> Num 0))),
                st_totalDeficit := st_totalDeficit st + (dem - available),
                st_bucketUtilization :=
                  (case st_bucketUtilization st bKey of
                     None \<Rightarrow> st_bucketUtilization st
                   | Some u \<Rightarrow>
                       (st_bucketUtilization st)(bKey \<mapsto>
                          u\<lparr>monthly_consumed := add_assign (monthly_consumed u) month available,
                            monthly_remaining := (monthly_remaining u)(month \<mapsto> Num 0)\<rparr>))\<rparr>
           else
             st\<lparr>st_projectStatus :=
                  add_project_deficit projectId dem
                    (set_monthly_status projectId month
                       \<lparr>status = Unstaffed, demand = dem, allocated = 0, deficit = dem\<rparr>
                       (st_projectStatus st)),
                st_totalDeficit := st_totalDeficit st + dem\<rparr>))"

definition process_month ::
  "(project_ident \<rightharpoonup> project) \<Rightarrow> project_ident list \<Rightarrow> month \<Rightarrow> alloc_state \<Rightarrow> alloc_state" where
  "process_month projectMap priorityOrder month st =
     fold (process_project projectMap month) priorityOrder st"

definition process_months ::
  "(project_ident \<rightharpoonup> project) \<Rightarrow> project_ident list \<Rightarrow> month list \<Rightarrow> alloc_state \<Rightarrow> alloc_state" where
  "process_months projectMap priorityOrder months st =
     fold (process_month projectMap priorityOrder) months st"

subsection \<open>Step 7 and the utilization percentages\<close>

text \<open>The two flags of step 7, set while visiting \<^verbatim>\<open>Object.values(project.monthlyStatus)\<close>.\<close>

definition status_flags :: "(month \<times> month_status) list \<Rightarrow> bool \<times> bool" where
  "status_flags ms =
     fold (\<lambda>monthStatus (hasAnyStaffed, hasAnyUnstaffed).
             (if status monthStatus = Staffed then True else hasAnyStaffed,
              if status monthStatus = Partial \<or> status monthStatus = Unstaffed then True
              else hasAnyUnstaffed))
       (map snd ms) (False, False)"

definition overall_status :: "(month \<times> month_status) list \<Rightarrow> status" where
  "overall_status ms =
     (case status_flags ms of
        (hasAnyStaffed, hasAnyUnstaffed) \<Rightarrow>
          if hasAnyUnstaffed \<and> hasAnyStaffed then Partial
          else if hasAnyUnstaffed then Unstaffed
          else Staffed)"

definition summarize_project :: "project_status \<Rightarrow> project_status" where
  "summarize_project s = s\<lparr>overallStatus := Some (overall_status (monthlyStatus s))\<rparr>"

text \<open>\<^verbatim>\<open>Math.round((consumed / capacity) * 100)\<close>\<close>

definition utilization_percent :: "jsnum option \<Rightarrow> int \<Rightarrow> jsnum" where
  "utilization_percent consumed capacity =
     (case consumed of
        Some (Num c) \<Rightarrow> Num (math_round ((of_int c / of_int capacity) * 100))
      | _ \<Rightarrow> NaN)"

text \<open>
  The final loop over one entry of \<^verbatim>\<open>bucketUtilization\<close>. Its key is a key of
  \<^verbatim>\<open>effectiveCapacity\<close>, from which the entry was created; on a missing key the source
  would raise a TypeError, and the model reads capacity 0.
\<close>

definition finalize_bucket ::
  "(bucket_key \<rightharpoonup> bucket) \<Rightarrow> month list \<Rightarrow> bucket_key \<Rightarrow> bucket_utilization \<Rightarrow> bucket_utilization" where
  "finalize_bucket ec months key u =
     fold (\<lambda>month u'.
             (let capacity = (case ec key of None \<Rightarrow> 0 | Some b \<Rightarrow> or_zero (monthly_capacity b month));
                  consumed = monthly_consumed u' month
              in u'\<lparr>monthly_utilization :=
                      (monthly_utilization u')(month \<mapsto>
                         (if 0 < capacity then utilization_percent consumed capacity else Num 0))\<rparr>))
       months u"

subsection \<open>The main function\<close>

definition calculateScenario ::
  "(nat \<Rightarrow> nat) \<Rightarrow> bucket list \<Rightarrow> project list \<Rightarrow> project_ident list \<Rightarrow> virtual_resource list \<Rightarrow>
   (project_ident \<rightharpoonup> int) \<Rightarrow> month list \<Rightarrow> scenario_result" where
  "calculateScenario clock baselineCapacity projects priorityOrder virtualResources timelineShifts months =
     (let ec = calculateEffectiveCapacity clock baselineCapacity virtualResources months;
          shiftedProjects = applyTimelineShifts projects timelineShifts months;
          projectMap = project_map shiftedProjects;
          st = process_months projectMap priorityOrder months
                 (init_state ec projectMap priorityOrder months)
      in \<lparr>effectiveCapacity = ec,
          bucketUtilization = (\<lambda>key. map_option (finalize_bucket ec months key) (st_bucketUtilization st key)),
          projectStatus = (\<lambda>projectId. map_option summarize_project (st_projectStatus st projectId)),
          totalDeficit = st_totalDeficit st,
          result_months = months\<rparr>)"

section \<open>Auxiliary notions for the statements\<close>

subsection \<open>Timeline shifts\<close>

text \<open>
  An entry of a demand mapping stays in the window when its month is listed and its shifted
  index is a valid index; it lands on the month at that index. \<open>remove_lost_entries\<close>
  deletes from a shifted project the entries that leave the window.
\<close>

definition in_window :: "month list \<Rightarrow> int \<Rightarrow> month \<times> int \<Rightarrow> bool" where
  "in_window months shift entry =
     (case month_index months (fst entry) of
        None \<Rightarrow> False
      | Some i \<Rightarrow> 0 \<le> int i + shift \<and> int i + shift < int (length months))"

definition lands_on :: "month list \<Rightarrow> int \<Rightarrow> month \<Rightarrow> month \<times> int \<Rightarrow> bool" where
  "lands_on months shift destination entry =
     (case month_index months (fst entry) of
        None \<Rightarrow> False
      | Some i \<Rightarrow> 0 \<le> int i + shift \<and> int i + shift < int (length months) \<and>
                  months ! nat (int i + shift) = destination)"

definition remove_lost_entries :: "(project_ident \<rightharpoonup> int) \<Rightarrow> month list \<Rightarrow> project \<Rightarrow> project" where
  "remove_lost_entries timelineShifts months p =
     (case timelineShifts (project_id p) of
        None \<Rightarrow> p
      | Some shift \<Rightarrow>
          if shift = 0 then p
          else p\<lparr>monthly_demand := filter (in_window months shift) (monthly_demand p)\<rparr>)"

subsection \<open>Virtual capacity\<close>

text \<open>The key of a virtual resource, and the hours that the resources on a key contribute.\<close>

definition resource_key :: "virtual_resource \<Rightarrow> bucket_key" where
  "resource_key r = getBucketKey (vr_team r) (vr_role r) (vr_location r)"

definition virtual_hours :: "bucket_key \<Rightarrow> virtual_resource list \<Rightarrow> int" where
  "virtual_hours key virtualResources =
     sum_list (map hours_or_default (filter (\<lambda>r. resource_key r = key) virtualResources))"

subsection \<open>Allocation\<close>

text \<open>
  The bucket key and the demand of a project, the capacity available to it, the month record
  that the loop body writes for a demand and an available capacity, and the remaining
  capacity of a bucket after the loop body.
\<close>

definition project_bucket_key :: "project \<Rightarrow> bucket_key" where
  "project_bucket_key p = getBucketKey (project_team p) (project_role p) (project_location p)"

definition demand_in :: "project \<Rightarrow> month \<Rightarrow> int" where
  "demand_in p month = or_zero (map_of (monthly_demand p) month)"

definition available_in :: "alloc_state \<Rightarrow> bucket_key \<Rightarrow> month \<Rightarrow> int" where
  "available_in st key month =
     (case remainingCapacity st key of None \<Rightarrow> 0 | Some rc \<Rightarrow> num_or_zero (rc month))"

definition month_record :: "int \<Rightarrow> int \<Rightarrow> month_status" where
  "month_record dem available =
     (if dem = 0 then \<lparr>status = NoDemand, demand = 0, allocated = 0, deficit = 0\<rparr>
      else if dem \<le> available then \<lparr>status = Staffed, demand = dem, allocated = dem, deficit = 0\<rparr>
      else if 0 < available then
        \<lparr>status = Partial, demand = dem, allocated = available, deficit = dem - available\<rparr>
      else \<lparr>status = Unstaffed, demand = dem, allocated = 0, deficit = dem\<rparr>)"

definition remaining_after :: "(month \<rightharpoonup> jsnum) \<Rightarrow> month \<Rightarrow> int \<Rightarrow> (month \<rightharpoonup> jsnum)" where
  "remaining_after rc month dem =
     (if dem = 0 then rc
      else if dem \<le> num_or_zero (rc month) then sub_assign rc month dem
      else if 0 < num_or_zero (rc month) then rc(month \<mapsto> Num 0)
      else rc)"




text \<open>
  The Status Summarizer rule in the words of the specification, read as a cascade: staffed if
  every month with nonzero demand is staffed; otherwise unstaffed if no month is staffed;
  otherwise partial. \<open>well_labelled\<close>: a month record has the status of no demand exactly
  when its demand is 0.
\<close>

definition summarizer_rule :: "(month \<times> month_status) list \<Rightarrow> status" where
  "summarizer_rule ms =
     (if list_all (\<lambda>(m, r). demand r \<noteq> 0 \<longrightarrow> status r = Staffed) ms then Staffed
      else if list_all (\<lambda>(m, r). status r \<noteq> Staffed) ms then Unstaffed
      else Partial)"

definition well_labelled :: "alloc_state \<Rightarrow> bool" where
  "well_labelled st \<longleftrightarrow>
     (\<forall>pid s m r. st_projectStatus st pid = Some s \<longrightarrow> (m, r) \<in> set (monthlyStatus s) \<longrightarrow>
        (status r = NoDemand \<longleftrightarrow> demand r = 0))"

subsection \<open>One month of a run\<close>

text \<open>
  What a state holds for one month: the remaining capacity of every bucket and the month
  record of every project. Two project tables are the same in a month when they have the
  same projects with the same bucket keys and the same demand in that month.
\<close>

definition month_view ::
  "month \<Rightarrow> alloc_state \<Rightarrow> (bucket_key \<rightharpoonup> jsnum option) \<times> (project_ident \<rightharpoonup> month_status option)" where
  "month_view m st =
     (\<lambda>key. map_option (\<lambda>rc. rc m) (remainingCapacity st key),
      \<lambda>pid. map_option (\<lambda>s. map_of (monthlyStatus s) m) (st_projectStatus st pid))"

definition same_in_month :: "month \<Rightarrow> (project_ident \<rightharpoonup> project) \<Rightarrow> (project_ident \<rightharpoonup> project) \<Rightarrow> bool" where
  "same_in_month m projectMap projectMap' \<longleftrightarrow>
     (\<forall>pid. map_option (\<lambda>p. (project_bucket_key p, demand_in p m)) (projectMap pid) =
            map_option (\<lambda>p. (project_bucket_key p, demand_in p m)) (projectMap' pid))"

subsection \<open>Bucket utilization\<close>





subsection \<open>Priority order\<close>


section \<open>A small scenario for concrete evaluation\<close>

definition ex_months :: "month list" where
  "ex_months = [''Jan'', ''Feb'', ''Mar'']"

definition ex_bucket :: bucket where
  "ex_bucket = \<lparr>bucket_id = ''bucket_0'', bucket_team = ''Digital'', bucket_role = ''Developer'',
     bucket_location = ''London'', monthly_capacity = [''Jan'' \<mapsto> 100, ''Feb'' \<mapsto> 100, ''Mar'' \<mapsto> 100],
     isVirtual = False\<rparr>"

definition ex_alpha :: project where
  "ex_alpha = \<lparr>project_id = ''alpha'', project_name = ''Project Alpha'', project_team = ''Digital'',
     project_role = ''Developer'', project_location = ''London'',
     monthly_demand = [(''Jan'', 60), (''Feb'', 80), (''Jul'', 25)], total_demand = 165, timelineShift = None\<rparr>"

definition ex_beta :: project where
  "ex_beta = \<lparr>project_id = ''beta'', project_name = ''Project Beta'', project_team = ''digital'',
     project_role = ''developer'', project_location = ''london'',
     monthly_demand = [(''Jan'', 60), (''Feb'', 50), (''Mar'', 30), (''Jul'', 10)], total_demand = 150,
     timelineShift = None\<rparr>"

definition ex_projects :: "project list" where
  "ex_projects = [ex_alpha, ex_beta]"

definition ex_shifts :: "project_ident \<rightharpoonup> int" where
  "ex_shifts = [''beta'' \<mapsto> 1]"

definition ex_hire :: virtual_resource where
  "ex_hire = \<lparr>vr_team = ''Digital'', vr_role = ''Developer'', vr_location = ''London'', hoursPerMonth = 40\<rparr>"

definition ex_hire_zero :: virtual_resource where
  "ex_hire_zero = \<lparr>vr_team = ''Digital'', vr_role = ''Developer'', vr_location = ''London'', hoursPerMonth = 0\<rparr>"

definition ex_hire_new :: virtual_resource where
  "ex_hire_new = \<lparr>vr_team = ''Strategy'', vr_role = ''Consultant'', vr_location = ''Pune'', hoursPerMonth = 120\<rparr>"

definition ex_bucket_surplus :: bucket where
  "ex_bucket_surplus = \<lparr>bucket_id = ''bucket_0'', bucket_team = ''Digital'', bucket_role = ''Developer'',
     bucket_location = ''London'', monthly_capacity = [''Jan'' \<mapsto> 500, ''Feb'' \<mapsto> 100],
     isVirtual = False\<rparr>"

definition ex_alpha_light :: project where
  "ex_alpha_light = \<lparr>project_id = ''alpha'', project_name = ''Project Alpha'', project_team = ''Digital'',
     project_role = ''Developer'', project_location = ''London'',
     monthly_demand = [(''Jan'', 10), (''Feb'', 80)], total_demand = 90, timelineShift = None\<rparr>"




section \<open>Basic facts\<close>

lemma or_zero_simps [simp]: "or_zero None = 0" "or_zero (Some v) = v"
  by (simp_all add: or_zero_def)

section \<open>Bucket keys\<close>









section \<open>Effective capacity\<close>

lemma add_hours_fold:
  "distinct months \<Longrightarrow>
   fold (\<lambda>month cap. cap(month \<mapsto> or_zero (cap month) + h)) months cap m =
     (if m \<in> set months then Some (or_zero (cap m) + h) else cap m)"
  by (induction months arbitrary: cap) auto

lemma set_hours_fold:
  "fold (\<lambda>month cap. cap(month \<mapsto> h)) months cap m = (if m \<in> set months then Some (h::int) else cap m)"
  by (induction months arbitrary: cap) auto

lemma add_virtual_resource_other:
  "k \<noteq> resource_key r \<Longrightarrow> add_virtual_resource months now r ec k = ec k"
  by (simp add: add_virtual_resource_def resource_key_def Let_def split: option.splits)

lemma add_virtual_resource_existing:
  "ec (resource_key r) = Some b \<Longrightarrow>
   add_virtual_resource months now r ec (resource_key r) =
     Some (b\<lparr>monthly_capacity :=
               fold (\<lambda>month cap. cap(month \<mapsto> or_zero (cap month) + hours_or_default r))
                 months (monthly_capacity b)\<rparr>)"
  by (simp add: add_virtual_resource_def resource_key_def Let_def)

lemma add_virtual_resource_new:
  "ec (resource_key r) = None \<Longrightarrow>
   add_virtual_resource months now r ec (resource_key r) =
     Some \<lparr>bucket_id = ''virtual_'' @ string_of_nat now, bucket_team = vr_team r,
           bucket_role = vr_role r, bucket_location = vr_location r,
           monthly_capacity = fold (\<lambda>month cap. cap(month \<mapsto> hours_or_default r)) months Map.empty,
           isVirtual = True\<rparr>"
  by (simp add: add_virtual_resource_def resource_key_def Let_def)

lemma virtual_hours_simps:
  "virtual_hours k [] = 0"
  "virtual_hours k (r # vrs) =
     (if resource_key r = k then hours_or_default r + virtual_hours k vrs else virtual_hours k vrs)"
  by (simp_all add: virtual_hours_def)

lemma virtual_hours_none: "filter (\<lambda>r. resource_key r = k) vrs = [] \<Longrightarrow> virtual_hours k vrs = 0"
  by (simp add: virtual_hours_def)

lemma add_virtual_resources_existing:
  assumes "distinct months" and "ec k = Some b"
  shows "\<exists>b'. add_virtual_resources months clock i vrs ec k = Some b' \<and>
           isVirtual b' = isVirtual b \<and> bucket_id b' = bucket_id b \<and>
           (\<forall>m. monthly_capacity b' m =
                 (if m \<in> set months \<and> filter (\<lambda>r. resource_key r = k) vrs \<noteq> []
                  then Some (or_zero (monthly_capacity b m) + virtual_hours k vrs)
                  else monthly_capacity b m))"
  using assms(2)
proof (induction vrs arbitrary: ec b i)
  case Nil
  then show ?case by (simp add: virtual_hours_simps)
next
  case (Cons r vrs)
  show ?case
  proof (cases "resource_key r = k")
    case False
    then have "add_virtual_resource months (clock i) r ec k = Some b"
      using Cons.prems by (simp add: add_virtual_resource_other)
    with Cons.IH[of "add_virtual_resource months (clock i) r ec" b "Suc i"] False show ?thesis
      by (fastforce simp add: virtual_hours_simps)
  next
    case True
    define b1 where "b1 = b\<lparr>monthly_capacity :=
               fold (\<lambda>month cap. cap(month \<mapsto> or_zero (cap month) + hours_or_default r))
                 months (monthly_capacity b)\<rparr>"
    have "add_virtual_resource months (clock i) r ec k = Some b1"
      using Cons.prems True add_virtual_resource_existing[of ec r b months "clock i"]
      by (simp add: b1_def)
    with Cons.IH[of "add_virtual_resource months (clock i) r ec" b1 "Suc i"] obtain b' where
      b': "add_virtual_resources months clock (Suc i) vrs (add_virtual_resource months (clock i) r ec) k = Some b'"
        "isVirtual b' = isVirtual b1" "bucket_id b' = bucket_id b1"
        "\<And>m. monthly_capacity b' m =
                 (if m \<in> set months \<and> filter (\<lambda>r. resource_key r = k) vrs \<noteq> []
                  then Some (or_zero (monthly_capacity b1 m) + virtual_hours k vrs)
                  else monthly_capacity b1 m)"
      by blast
    have c1: "monthly_capacity b1 m =
        (if m \<in> set months then Some (or_zero (monthly_capacity b m) + hours_or_default r)
         else monthly_capacity b m)" for m
      using add_hours_fold[OF assms(1)] by (simp add: b1_def)
    have "monthly_capacity b' m =
                 (if m \<in> set months \<and> filter (\<lambda>r. resource_key r = k) (r # vrs) \<noteq> []
                  then Some (or_zero (monthly_capacity b m) + virtual_hours k (r # vrs))
                  else monthly_capacity b m)" for m
      using True by (simp add: b'(4) c1 virtual_hours_none virtual_hours_simps)
    with b'(1,2,3) show ?thesis
      by (simp add: b1_def)
  qed
qed

lemma add_virtual_resources_new:
  assumes "distinct months" and "ec k = None"
  shows "if filter (\<lambda>r. resource_key r = k) vrs = []
         then add_virtual_resources months clock i vrs ec k = None
         else (\<exists>b'. add_virtual_resources months clock i vrs ec k = Some b' \<and> isVirtual b' \<and>
                 (\<forall>m. monthly_capacity b' m =
                    (if m \<in> set months then Some (virtual_hours k vrs) else None)))"
  using assms(2)
proof (induction vrs arbitrary: ec i)
  case Nil
  then show ?case by simp
next
  case (Cons r vrs)
  show ?case
  proof (cases "resource_key r = k")
    case False
    then have "add_virtual_resource months (clock i) r ec k = None"
      using Cons.prems by (simp add: add_virtual_resource_other)
    with Cons.IH[of "add_virtual_resource months (clock i) r ec" "Suc i"] False show ?thesis
      by (cases "filter (\<lambda>r. resource_key r = k) vrs = []") (auto simp add: virtual_hours_simps)
  next
    case True
    define b1 where "b1 = \<lparr>bucket_id = ''virtual_'' @ string_of_nat (clock i), bucket_team = vr_team r,
           bucket_role = vr_role r, bucket_location = vr_location r,
           monthly_capacity = fold (\<lambda>month cap. cap(month \<mapsto> hours_or_default r)) months Map.empty,
           isVirtual = True\<rparr>"
    have "add_virtual_resource months (clock i) r ec k = Some b1"
      using Cons.prems True add_virtual_resource_new[of ec r months "clock i"]
      by (simp add: b1_def)
    with add_virtual_resources_existing[OF assms(1), of "add_virtual_resource months (clock i) r ec" k b1 clock "Suc i" vrs]
    obtain b' where
      b': "add_virtual_resources months clock (Suc i) vrs (add_virtual_resource months (clock i) r ec) k = Some b'"
        "isVirtual b' = isVirtual b1"
        "\<And>m. monthly_capacity b' m =
                 (if m \<in> set months \<and> filter (\<lambda>r. resource_key r = k) vrs \<noteq> []
                  then Some (or_zero (monthly_capacity b1 m) + virtual_hours k vrs)
                  else monthly_capacity b1 m)"
      by blast
    have c1: "monthly_capacity b1 m = (if m \<in> set months then Some (hours_or_default r) else None)" for m
      by (simp add: b1_def set_hours_fold)
    have "monthly_capacity b' m = (if m \<in> set months then Some (virtual_hours k (r # vrs)) else None)" for m
      using True by (simp add: b'(3) c1 virtual_hours_none virtual_hours_simps)
    with b'(1,2) True show ?thesis
      by (simp add: b1_def)
  qed
qed

text \<open>
  Claim C5, amended: for a month list without repeated labels, the capacity of a key in a
  listed month is the capacity of its baseline bucket (0 where that has none) plus, for
  every virtual resource on that key, its \<^verbatim>\<open>hoursPerMonth\<close>, or 160 where
  \<^verbatim>\<open>hoursPerMonth\<close> is 0; a key with no baseline bucket and at least one virtual resource
  gets a bucket with \<^verbatim>\<open>isVirtual = true\<close> whose capacity in a listed month is that sum;
  a key with neither has no bucket.
\<close>

theorem effective_capacity_accumulates:
  assumes "distinct months" and "m \<in> set months"
  shows "case calculateEffectiveCapacity clock baselineCapacity [] months key of
           Some b \<Rightarrow>
             (\<exists>b'. calculateEffectiveCapacity clock baselineCapacity virtualResources months key = Some b' \<and>
                    isVirtual b' = isVirtual b \<and>
                    or_zero (monthly_capacity b' m) =
                      or_zero (monthly_capacity b m) + virtual_hours key virtualResources)
         | None \<Rightarrow>
             if filter (\<lambda>r. resource_key r = key) virtualResources = []
             then calculateEffectiveCapacity clock baselineCapacity virtualResources months key = None
             else (\<exists>b'. calculateEffectiveCapacity clock baselineCapacity virtualResources months key = Some b' \<and>
                         isVirtual b' \<and>
                         monthly_capacity b' m = Some (virtual_hours key virtualResources))"
proof (cases "fold add_baseline_bucket baselineCapacity Map.empty key")
  case None
  from add_virtual_resources_new[OF assms(1), of "fold add_baseline_bucket baselineCapacity Map.empty" key virtualResources clock 0]
    None assms(2)
  show ?thesis
    by (auto simp add: calculateEffectiveCapacity_def)
next
  case (Some b)
  from add_virtual_resources_existing[OF assms(1), of "fold add_baseline_bucket baselineCapacity Map.empty" key b clock 0 virtualResources]
    Some assms(2)
  show ?thesis
    by (cases "filter (\<lambda>r. resource_key r = key) virtualResources = []")
       (auto simp add: calculateEffectiveCapacity_def virtual_hours_def)
qed


text \<open>
  Claim C5 says that the resource's \<^verbatim>\<open>hoursPerMonth\<close> is added. A resource with
  \<^verbatim>\<open>hoursPerMonth = 0\<close> adds 160 hours (\<^verbatim>\<open>resource.hoursPerMonth || 160\<close>).
\<close>

theorem effective_capacity_zero_hours:
  "hoursPerMonth ex_hire_zero = 0 \<and>
   map_option (\<lambda>b. monthly_capacity b ''Jan'')
     (calculateEffectiveCapacity (\<lambda>i. 0) [ex_bucket] [] ex_months ''digital|developer|london'')
     = Some (Some 100) \<and>
   map_option (\<lambda>b. monthly_capacity b ''Jan'')
     (calculateEffectiveCapacity (\<lambda>i. 0) [ex_bucket] [ex_hire_zero] ex_months ''digital|developer|london'')
     = Some (Some 260)"
  by code_simp

theorem effective_capacity_accumulates_witness:
  "distinct ex_months \<and> ''Feb'' \<in> set ex_months \<and>
   (\<exists>b'. calculateEffectiveCapacity (\<lambda>i. 0) [ex_bucket] [ex_hire, ex_hire_new, ex_hire_zero] ex_months
            ''digital|developer|london'' = Some b' \<and>
         isVirtual b' = False \<and> or_zero (monthly_capacity b' ''Feb'') = 100 + (40 + 160)) \<and>
   (\<exists>b'. calculateEffectiveCapacity (\<lambda>i. 0) [ex_bucket] [ex_hire, ex_hire_new, ex_hire_zero] ex_months
            ''strategy|consultant|pune'' = Some b' \<and>
         isVirtual b' \<and> monthly_capacity b' ''Feb'' = Some 120)"
proof -
  have d: "distinct ex_months" and f: "''Feb'' \<in> set ex_months"
    by (simp_all add: ex_months_def)
  have k: "getBucketKey ''Digital'' ''Developer'' ''London'' = ''digital|developer|london''"
    by code_simp
  have base1: "calculateEffectiveCapacity (\<lambda>i. 0) [ex_bucket] [] ex_months ''digital|developer|london''
      = Some ex_bucket"
    by (simp add: calculateEffectiveCapacity_def add_baseline_bucket_def ex_bucket_def k)
  have base2: "calculateEffectiveCapacity (\<lambda>i. 0) [ex_bucket] [] ex_months ''strategy|consultant|pune''
      = None"
    by (simp add: calculateEffectiveCapacity_def add_baseline_bucket_def ex_bucket_def k)
  have h1: "virtual_hours ''digital|developer|london'' [ex_hire, ex_hire_new, ex_hire_zero] = 40 + 160"
    by code_simp
  have h2: "virtual_hours ''strategy|consultant|pune'' [ex_hire, ex_hire_new, ex_hire_zero] = 120"
    by code_simp
  have h3: "filter (\<lambda>r. resource_key r = ''strategy|consultant|pune'') [ex_hire, ex_hire_new, ex_hire_zero] \<noteq> []"
    by code_simp
  have c: "isVirtual ex_bucket = False" "or_zero (monthly_capacity ex_bucket ''Feb'') = 100"
    by (simp_all add: ex_bucket_def)
  from effective_capacity_accumulates[OF d f, where clock = "\<lambda>i. 0" and baselineCapacity = "[ex_bucket]"
      and key = "''digital|developer|london''" and virtualResources = "[ex_hire, ex_hire_new, ex_hire_zero]"]
  have a: "\<exists>b'. calculateEffectiveCapacity (\<lambda>i. 0) [ex_bucket] [ex_hire, ex_hire_new, ex_hire_zero] ex_months
            ''digital|developer|london'' = Some b' \<and>
         isVirtual b' = False \<and> or_zero (monthly_capacity b' ''Feb'') = 100 + (40 + 160)"
    by (simp add: base1 h1 c)
  from effective_capacity_accumulates[OF d f, where clock = "\<lambda>i. 0" and baselineCapacity = "[ex_bucket]"
      and key = "''strategy|consultant|pune''" and virtualResources = "[ex_hire, ex_hire_new, ex_hire_zero]"] h3
  have b: "\<exists>b'. calculateEffectiveCapacity (\<lambda>i. 0) [ex_bucket] [ex_hire, ex_hire_new, ex_hire_zero] ex_months
            ''strategy|consultant|pune'' = Some b' \<and>
         isVirtual b' \<and> monthly_capacity b' ''Feb'' = Some 120"
    by (simp add: base2 h2)
  from d f a b show ?thesis by blast
qed

section \<open>Timeline shifts\<close>


lemma month_index_fold_None:
  "fold (\<lambda>(idx, month) monthIndex. monthIndex(month \<mapsto> idx)) (enumerate n ms) acc m = None
   \<longleftrightarrow> acc m = None \<and> m \<notin> set ms"
  by (induction ms arbitrary: n acc) auto

lemma month_index_fold_Some:
  "fold (\<lambda>(idx, month) monthIndex. monthIndex(month \<mapsto> idx)) (enumerate n ms) acc m = Some i
   \<Longrightarrow> (acc m = Some i \<and> m \<notin> set ms) \<or> (n \<le> i \<and> i < n + length ms \<and> ms ! (i - n) = m)"
proof (induction ms arbitrary: n acc)
  case Nil
  then show ?case by simp
next
  case (Cons a ms)
  from Cons.prems have
    "fold (\<lambda>(idx, month) monthIndex. monthIndex(month \<mapsto> idx)) (enumerate (Suc n) ms) (acc(a \<mapsto> n)) m = Some i"
    by (simp add: fun_upd_def)
  from Cons.IH[OF this] show ?case
    by (auto split: if_splits simp: nth_Cons')
qed

lemma month_index_None: "month_index months m = None \<longleftrightarrow> m \<notin> set months"
  by (simp add: month_index_def month_index_fold_None)

lemma month_index_Some: "month_index months m = Some i \<Longrightarrow> i < length months \<and> months ! i = m"
  using month_index_fold_Some[of 0 months Map.empty m i] by (simp add: month_index_def)

lemma shift_entry_lands:
  "lands_on months s m' e \<Longrightarrow>
   shift_entry months s e acc = AList.update m' (or_zero (map_of acc m') + snd e) acc"
  by (auto simp: lands_on_def shift_entry_def Let_def split: option.splits)

lemma shift_entry_other:
  "\<not> lands_on months s m' e \<Longrightarrow> map_of (shift_entry months s e acc) m' = map_of acc m'"
  by (auto simp: lands_on_def shift_entry_def Let_def update_conv' split: option.splits)

lemma shift_entry_outside: "\<not> in_window months s e \<Longrightarrow> shift_entry months s e acc = acc"
  by (auto simp: in_window_def shift_entry_def Let_def split: option.splits)

lemma fold_shift_entry_lookup:
  "map_of (fold (shift_entry months s) es acc) m' =
     (if filter (lands_on months s m') es = [] then map_of acc m'
      else Some (or_zero (map_of acc m') + sum_list (map snd (filter (lands_on months s m') es))))"
proof (induction es arbitrary: acc)
  case Nil
  then show ?case by simp
next
  case (Cons e es)
  show ?case
  proof (cases "lands_on months s m' e")
    case True
    then show ?thesis
      by (simp add: Cons.IH shift_entry_lands update_conv')
  next
    case False
    then show ?thesis
      by (simp add: Cons.IH shift_entry_other)
  qed
qed

lemma fold_shift_entry_filter:
  "fold (shift_entry months s) (filter (in_window months s) es) acc = fold (shift_entry months s) es acc"
  by (induction es arbitrary: acc) (simp_all add: shift_entry_outside)

lemma lands_on_in_window: "lands_on months s m' e \<Longrightarrow> in_window months s e"
  by (auto simp: lands_on_def in_window_def split: option.splits)

lemma lands_on_destination: "lands_on months s m' e \<Longrightarrow> m' \<in> set months"
  by (auto simp: lands_on_def split: option.splits)

lemma in_window_listed: "in_window months s e \<Longrightarrow> fst e \<in> set months"
  using month_index_None[of months "fst e"] by (auto simp: in_window_def split: option.splits)

lemma shift_project_remove_lost:
  "shift_project ts months (remove_lost_entries ts months p) = shift_project ts months p"
  by (simp add: shift_project_def remove_lost_entries_def fold_shift_entry_filter split: option.splits)

lemma applyTimelineShifts_remove_lost:
  "applyTimelineShifts (map (remove_lost_entries ts months) projects) ts months =
   applyTimelineShifts projects ts months"
  by (simp add: applyTimelineShifts_def shift_project_remove_lost)

lemma fold_shift_entry_keys:
  "fst ` set (fold (shift_entry months s) es acc) \<subseteq> fst ` set acc \<union> set months"
proof (induction es arbitrary: acc)
  case Nil
  then show ?case by simp
next
  case (Cons e es)
  have "fst ` set (shift_entry months s e acc) \<subseteq> fst ` set acc \<union> set months"
    by (auto simp: shift_entry_def Let_def dom_update split: option.splits)
  with Cons.IH[of "shift_entry months s e acc"] show ?case by auto
qed

lemma shift_entry_unlisted: "fst e \<notin> set months \<Longrightarrow> shift_entry months s e acc = acc"
  using month_index_None[of months "fst e"] by (simp add: shift_entry_def)

lemma fold_shift_entry_listed:
  "fold (shift_entry months s) (filter (\<lambda>e. fst e \<in> set months) es) acc = fold (shift_entry months s) es acc"
  by (induction es arbitrary: acc) (simp_all add: shift_entry_unlisted)

text \<open>
  Claim C10: a project whose shift is missing or 0 is returned as it is, so its demand entries
  under labels outside the month list are kept; for a nonzero shift every label of the
  rewritten demand is a listed month, and the rewritten demand is the one computed from the
  entries under listed months alone.
\<close>

theorem applyTimelineShifts_unlisted_labels:
  assumes "i < length projects"
  shows "(timelineShifts (project_id (projects ! i)) = None \<or>
          timelineShifts (project_id (projects ! i)) = Some 0 \<longrightarrow>
            applyTimelineShifts projects timelineShifts months ! i = projects ! i) \<and>
         (\<forall>shift. timelineShifts (project_id (projects ! i)) = Some shift \<and> shift \<noteq> 0 \<longrightarrow>
            fst ` set (monthly_demand (applyTimelineShifts projects timelineShifts months ! i)) \<subseteq> set months \<and>
            monthly_demand (applyTimelineShifts projects timelineShifts months ! i) =
              fold (shift_entry months shift)
                (filter (\<lambda>e. fst e \<in> set months) (monthly_demand (projects ! i))) [])"
proof -
  have "applyTimelineShifts projects timelineShifts months ! i = shift_project timelineShifts months (projects ! i)"
    using assms by (simp add: applyTimelineShifts_def)
  moreover have "fst ` set (fold (shift_entry months shift) (monthly_demand (projects ! i)) []) \<subseteq> set months"
    for shift
    using fold_shift_entry_keys[of months shift "monthly_demand (projects ! i)" "[]"] by simp
  ultimately show ?thesis
    by (auto simp add: shift_project_def fold_shift_entry_listed)
qed

theorem applyTimelineShifts_unlisted_labels_witness:
  "0 < length ex_projects \<and> 1 < length ex_projects \<and>
   ex_shifts (project_id (ex_projects ! 0)) = None \<and>
   applyTimelineShifts ex_projects ex_shifts ex_months ! 0 = ex_projects ! 0 \<and>
   map_of (monthly_demand (applyTimelineShifts ex_projects ex_shifts ex_months ! 0)) ''Jul'' = Some 25 \<and>
   ex_shifts (project_id (ex_projects ! 1)) = Some 1 \<and>
   ''Jul'' \<notin> set ex_months \<and>
   ''Jul'' \<notin> fst ` set (monthly_demand (applyTimelineShifts ex_projects ex_shifts ex_months ! 1))"
proof -
  have l0: "0 < length ex_projects" and l1: "1 < length ex_projects"
    by (simp_all add: ex_projects_def)
  have s0: "ex_shifts (project_id (ex_projects ! 0)) = None"
    and s1: "ex_shifts (project_id (ex_projects ! 1)) = Some 1"
    by (simp_all add: ex_projects_def ex_shifts_def ex_alpha_def ex_beta_def)
  have j: "''Jul'' \<notin> set ex_months" by (simp add: ex_months_def)
  from applyTimelineShifts_unlisted_labels[OF l0, of ex_shifts ex_months] s0
  have a: "applyTimelineShifts ex_projects ex_shifts ex_months ! 0 = ex_projects ! 0" by blast
  have b: "map_of (monthly_demand (ex_projects ! 0)) ''Jul'' = Some 25"
    by (simp add: ex_projects_def ex_alpha_def)
  have n: "(1::int) \<noteq> 0" by simp
  from applyTimelineShifts_unlisted_labels[OF l1, of ex_shifts ex_months] s1 n
  have "fst ` set (monthly_demand (applyTimelineShifts ex_projects ex_shifts ex_months ! 1)) \<subseteq> set ex_months"
    by blast
  with j have c: "''Jul'' \<notin> fst ` set (monthly_demand (applyTimelineShifts ex_projects ex_shifts ex_months ! 1))"
    by blast
  from l0 l1 s0 s1 j a b c show ?thesis by simp
qed

text \<open>
  Claim C6: under a nonzero shift the demand of a destination month is the sum of the hours
  of the entries that land on it (missing when none does), so entries whose shifted index
  leaves the window are in no month of the shifted demand and entries landing on the same
  month are added up; and the whole result of \<^verbatim>\<open>calculateScenario\<close> is the result
  for the projects with the entries that leave the window deleted, so the dropped hours are
  in no status, consumption or deficit.
\<close>

theorem lossy_shift_at_boundary:
  assumes "i < length projects"
    and "timelineShifts (project_id (projects ! i)) = Some shift" and "shift \<noteq> 0"
  shows "map_of (monthly_demand (applyTimelineShifts projects timelineShifts months ! i)) destination =
           (let landing = filter (lands_on months shift destination) (monthly_demand (projects ! i))
            in if landing = [] then None else Some (sum_list (map snd landing))) \<and>
         calculateScenario clock baselineCapacity (map (remove_lost_entries timelineShifts months) projects)
             priorityOrder virtualResources timelineShifts months =
           calculateScenario clock baselineCapacity projects priorityOrder virtualResources timelineShifts months"
proof -
  have "applyTimelineShifts projects timelineShifts months ! i = shift_project timelineShifts months (projects ! i)"
    using assms(1) by (simp add: applyTimelineShifts_def)
  then have "map_of (monthly_demand (applyTimelineShifts projects timelineShifts months ! i)) destination =
      map_of (fold (shift_entry months shift) (monthly_demand (projects ! i)) []) destination"
    using assms(2,3) by (simp add: shift_project_def)
  then show ?thesis
    by (simp add: fold_shift_entry_lookup Let_def calculateScenario_def applyTimelineShifts_remove_lost)
qed

theorem lossy_shift_at_boundary_witness:
  "1 < length ex_projects \<and> ex_shifts (project_id (ex_projects ! 1)) = Some 1 \<and> (1::int) \<noteq> 0 \<and>
   map_of (monthly_demand (ex_projects ! 1)) ''Mar'' = Some 30 \<and>
   map_of (monthly_demand (applyTimelineShifts ex_projects ex_shifts ex_months ! 1)) ''Jan'' = None \<and>
   map_of (monthly_demand (applyTimelineShifts ex_projects ex_shifts ex_months ! 1)) ''Feb'' = Some 60 \<and>
   map_of (monthly_demand (applyTimelineShifts ex_projects ex_shifts ex_months ! 1)) ''Mar'' = Some 50 \<and>
   monthly_demand (remove_lost_entries ex_shifts ex_months (ex_projects ! 1)) = [(''Jan'', 60), (''Feb'', 50)] \<and>
   calculateScenario (\<lambda>i. 0) [ex_bucket] (map (remove_lost_entries ex_shifts ex_months) ex_projects)
       [''alpha'', ''beta''] [] ex_shifts ex_months =
     calculateScenario (\<lambda>i. 0) [ex_bucket] ex_projects [''alpha'', ''beta''] [] ex_shifts ex_months"
proof -
  have l1: "1 < length ex_projects"
    by (simp add: ex_projects_def)
  have s1: "ex_shifts (project_id (ex_projects ! 1)) = Some 1"
    by (simp add: ex_projects_def ex_shifts_def ex_beta_def)
  have n: "(1::int) \<noteq> 0" by simp
  note t = lossy_shift_at_boundary[where i = 1 and projects = ex_projects and timelineShifts = ex_shifts
      and shift = 1 and months = ex_months and clock = "\<lambda>i. 0" and baselineCapacity = "[ex_bucket]"
      and priorityOrder = "[''alpha'', ''beta'']" and virtualResources = "[]", OF l1 s1 n]
  have e0: "map_of (monthly_demand (ex_projects ! 1)) ''Mar'' = Some 30"
    by (simp add: ex_projects_def ex_beta_def)
  have e1: "(let landing = filter (lands_on ex_months 1 ''Jan'') (monthly_demand (ex_projects ! 1))
            in if landing = [] then None else Some (sum_list (map snd landing))) = None"
    by code_simp
  have e2: "(let landing = filter (lands_on ex_months 1 ''Feb'') (monthly_demand (ex_projects ! 1))
            in if landing = [] then None else Some (sum_list (map snd landing))) = Some 60"
    by code_simp
  have e3: "(let landing = filter (lands_on ex_months 1 ''Mar'') (monthly_demand (ex_projects ! 1))
            in if landing = [] then None else Some (sum_list (map snd landing))) = Some 50"
    by code_simp
  have e4: "monthly_demand (remove_lost_entries ex_shifts ex_months (ex_projects ! 1)) = [(''Jan'', 60), (''Feb'', 50)]"
    by code_simp
  from t[of "''Jan''"] t[of "''Feb''"] t[of "''Mar''"] e0 e1 e2 e3 e4 l1 s1 show ?thesis
    by (simp only: simp_thms)
qed

section \<open>The allocation loop\<close>

lemma process_project_unknown: "projectMap projectId = None \<Longrightarrow> process_project projectMap month projectId st = st"
  by (simp add: process_project_def)

lemma process_project_status:
  assumes "projectMap projectId = Some p"
  shows "st_projectStatus (process_project projectMap month projectId st) =
     (case st_projectStatus st projectId of
        None \<Rightarrow> st_projectStatus st
      | Some s \<Rightarrow>
          (st_projectStatus st)(projectId \<mapsto>
             s\<lparr>monthlyStatus :=
                 AList.update month
                   (month_record (demand_in p month) (available_in st (project_bucket_key p) month))
                   (monthlyStatus s),
               ps_totalDeficit :=
                 ps_totalDeficit s +
                 deficit (month_record (demand_in p month) (available_in st (project_bucket_key p) month))\<rparr>))"
  using assms
  by (simp add: process_project_def Let_def month_record_def demand_in_def available_in_def
      project_bucket_key_def set_monthly_status_def add_project_deficit_def split: option.splits)

lemma process_project_totalDeficit:
  assumes "projectMap projectId = Some p"
  shows "st_totalDeficit (process_project projectMap month projectId st) =
     st_totalDeficit st +
     deficit (month_record (demand_in p month) (available_in st (project_bucket_key p) month))"
  using assms
  by (simp add: process_project_def Let_def month_record_def demand_in_def available_in_def
      project_bucket_key_def)

lemma process_project_remaining:
  assumes "projectMap projectId = Some p"
  shows "remainingCapacity (process_project projectMap month projectId st) =
     (case remainingCapacity st (project_bucket_key p) of
        None \<Rightarrow> remainingCapacity st
      | Some rc \<Rightarrow> (remainingCapacity st)(project_bucket_key p \<mapsto> remaining_after rc month (demand_in p month)))"
  using assms
  by (auto simp add: process_project_def Let_def remaining_after_def demand_in_def
      project_bucket_key_def split: option.splits)


lemma fold_invariant: "P s \<Longrightarrow> (\<And>x s. P s \<Longrightarrow> P (f x s)) \<Longrightarrow> P (fold f xs s)"
  by (induction xs arbitrary: s) auto





lemma init_project_status_fold:
  "fold (\<lambda>(idx, projectId) ps.
             case projectMap projectId of
               None \<Rightarrow> ps
             | Some p \<Rightarrow>
                 ps(projectId \<mapsto>
                      \<lparr>ps_project = p, priority = idx + 1, monthlyStatus = [], ps_totalDeficit = 0,
                       bucketKey = getBucketKey (project_team p) (project_role p) (project_location p),
                       overallStatus = None\<rparr>))
       (enumerate n priorityOrder) acc pid = None
   \<longleftrightarrow> acc pid = None \<and> (pid \<notin> set priorityOrder \<or> projectMap pid = None)"
  by (induction priorityOrder arbitrary: n acc) (auto split: option.splits)

lemma init_project_status_defined:
  "init_project_status projectMap priorityOrder pid = None \<longleftrightarrow>
   pid \<notin> set priorityOrder \<or> projectMap pid = None"
  by (simp add: init_project_status_def init_project_status_fold)

section \<open>Conservation of hours\<close>








section \<open>Overall status\<close>

lemma set_update_subset: "set (AList.update k v al) \<subseteq> insert (k, v) (set al)"
  by (induction al) auto

lemma month_record_label: "status (month_record dem av) = NoDemand \<longleftrightarrow> demand (month_record dem av) = 0"
  by (simp add: month_record_def)

lemma process_project_well_labelled:
  assumes "well_labelled st"
  shows "well_labelled (process_project projectMap month projectId st)"
proof (cases "projectMap projectId")
  case None
  then show ?thesis using assms by (simp add: process_project_unknown)
next
  case (Some p)
  show ?thesis
    unfolding well_labelled_def
  proof (intro allI impI)
    fix pid s m r
    assume s: "st_projectStatus (process_project projectMap month projectId st) pid = Some s"
      and r: "(m, r) \<in> set (monthlyStatus s)"
    show "status r = NoDemand \<longleftrightarrow> demand r = 0"
    proof (cases "pid = projectId \<and> st_projectStatus st projectId \<noteq> None")
      case False
      then have "st_projectStatus st pid = Some s"
        using s Some by (auto simp add: process_project_status split: option.splits if_splits)
      with assms r show ?thesis unfolding well_labelled_def by blast
    next
      case True
      then obtain s0 where s0: "st_projectStatus st projectId = Some s0" by auto
      let ?r = "month_record (demand_in p month) (available_in st (project_bucket_key p) month)"
      have "monthlyStatus s = AList.update month ?r (monthlyStatus s0)"
        using s Some True s0 by (auto simp add: process_project_status)
      with r set_update_subset[of month ?r "monthlyStatus s0"]
      have "(m, r) = (month, ?r) \<or> (m, r) \<in> set (monthlyStatus s0)" by auto
      then show ?thesis
      proof
        assume "(m, r) = (month, ?r)"
        then show ?thesis using month_record_label by simp
      next
        assume "(m, r) \<in> set (monthlyStatus s0)"
        with assms s0 show ?thesis unfolding well_labelled_def by blast
      qed
    qed
  qed
qed

lemma process_months_well_labelled:
  assumes "well_labelled st"
  shows "well_labelled (process_months projectMap priorityOrder months st)"
  unfolding process_months_def process_month_def
  using assms
  by (rule fold_invariant) (rule fold_invariant, assumption, rule process_project_well_labelled)

lemma init_project_status_fold_Some:
  fixes projectMap :: "project_ident \<rightharpoonup> project"
  defines "step \<equiv> (\<lambda>(idx, projectId) ps.
             case projectMap projectId of
               None \<Rightarrow> ps
             | Some p \<Rightarrow>
                 ps(projectId \<mapsto>
                      \<lparr>ps_project = p, priority = idx + 1, monthlyStatus = [], ps_totalDeficit = 0,
                       bucketKey = getBucketKey (project_team p) (project_role p) (project_location p),
                       overallStatus = None\<rparr>))"
  shows "fold step (enumerate n priorityOrder) acc pid = Some s
   \<Longrightarrow> acc pid = Some s \<or> (monthlyStatus s = [] \<and> ps_totalDeficit s = 0 \<and> projectMap pid = Some (ps_project s))"
proof (induction priorityOrder arbitrary: n acc)
  case Nil
  then show ?case by simp
next
  case (Cons a priorityOrder)
  from Cons.prems have "fold step (enumerate (Suc n) priorityOrder) (step (n, a) acc) pid = Some s"
    by simp
  from Cons.IH[OF this]
  have "step (n, a) acc pid = Some s \<or>
        (monthlyStatus s = [] \<and> ps_totalDeficit s = 0 \<and> projectMap pid = Some (ps_project s))" .
  then show ?case
    by (auto simp add: step_def split: option.splits if_splits)
qed

lemma init_project_status_Some:
  "init_project_status projectMap priorityOrder pid = Some s \<Longrightarrow>
   monthlyStatus s = [] \<and> ps_totalDeficit s = 0 \<and> projectMap pid = Some (ps_project s)"
  using init_project_status_fold_Some[of projectMap 0 priorityOrder Map.empty pid s]
  by (simp add: init_project_status_def)

lemma init_state_well_labelled: "well_labelled (init_state ec projectMap priorityOrder months)"
  by (auto simp add: well_labelled_def init_state_def dest: init_project_status_Some)

lemma status_flags_fold:
  "fold (\<lambda>monthStatus (hasAnyStaffed, hasAnyUnstaffed).
             (if status monthStatus = Staffed then True else hasAnyStaffed,
              if status monthStatus = Partial \<or> status monthStatus = Unstaffed then True
              else hasAnyUnstaffed)) rs (a, b) =
     (a \<or> (\<exists>r\<in>set rs. status r = Staffed),
      b \<or> (\<exists>r\<in>set rs. status r = Partial \<or> status r = Unstaffed))"
  by (induction rs arbitrary: a b) auto

lemma status_flags_eq:
  "status_flags ms =
     ((\<exists>r\<in>snd ` set ms. status r = Staffed),
      (\<exists>r\<in>snd ` set ms. status r = Partial \<or> status r = Unstaffed))"
  by (simp add: status_flags_def status_flags_fold)

lemma overall_status_rule:
  assumes "\<forall>(m, r)\<in>set ms. status r = NoDemand \<longleftrightarrow> demand r = 0"
  shows "overall_status ms = summarizer_rule ms"
proof -
  let ?S = "\<exists>r\<in>snd ` set ms. status r = Staffed"
  let ?U = "\<exists>r\<in>snd ` set ms. status r = Partial \<or> status r = Unstaffed"
  have cases: "status r = Staffed \<or> status r = NoDemand \<or> status r = Partial \<or> status r = Unstaffed"
    for r :: month_status
    by (cases "status r") auto
  have t1: "list_all (\<lambda>(m, r). demand r \<noteq> 0 \<longrightarrow> status r = Staffed) ms \<longleftrightarrow> \<not> ?U"
  proof
    assume l: "list_all (\<lambda>(m, r). demand r \<noteq> 0 \<longrightarrow> status r = Staffed) ms"
    show "\<not> ?U"
    proof
      assume ?U
      then obtain m r where mr: "(m, r) \<in> set ms" "status r = Partial \<or> status r = Unstaffed"
        by auto
      with assms have "demand r \<noteq> 0" by auto
      with l mr(1) have "status r = Staffed" by (auto simp add: list_all_iff)
      with mr(2) show False by auto
    qed
  next
    assume nu: "\<not> ?U"
    show "list_all (\<lambda>(m, r). demand r \<noteq> 0 \<longrightarrow> status r = Staffed) ms"
      unfolding list_all_iff
    proof (intro ballI, clarify)
      fix m r
      assume mr: "(m, r) \<in> set ms" and d: "demand r \<noteq> 0"
      from assms mr d have "status r \<noteq> NoDemand" by auto
      moreover from nu mr have "\<not> (status r = Partial \<or> status r = Unstaffed)" by force
      ultimately show "status r = Staffed" using cases[of r] by blast
    qed
  qed
  have t2: "list_all (\<lambda>(m, r). status r \<noteq> Staffed) ms \<longleftrightarrow> \<not> ?S"
    by (force simp add: list_all_iff)
  show ?thesis
    by (simp add: overall_status_def status_flags_eq summarizer_rule_def t1 t2)
qed

lemma summarizer_rule_filter:
  assumes "\<forall>(m, r)\<in>set ms. status r = NoDemand \<longleftrightarrow> demand r = 0"
  shows "summarizer_rule (filter (\<lambda>(m, r). status r \<noteq> NoDemand) ms) = summarizer_rule ms"
proof -
  have a: "list_all (\<lambda>(m, r). demand r \<noteq> 0 \<longrightarrow> status r = Staffed) (filter (\<lambda>(m, r). status r \<noteq> NoDemand) ms)
      \<longleftrightarrow> list_all (\<lambda>(m, r). demand r \<noteq> 0 \<longrightarrow> status r = Staffed) ms"
    using assms unfolding list_all_iff by fastforce
  have b: "list_all (\<lambda>(m, r). status r \<noteq> Staffed) (filter (\<lambda>(m, r). status r \<noteq> NoDemand) ms)
      \<longleftrightarrow> list_all (\<lambda>(m, r). status r \<noteq> Staffed) ms"
    unfolding list_all_iff by fastforce
  show ?thesis
    unfolding summarizer_rule_def by (simp only: a b)
qed

text \<open>
  Claim C8: the overall status of every project of the result is given by the Status
  Summarizer rule applied to its month records; the rule gives the same status when the
  months without demand are left out; and a month record has the status of no demand exactly
  when its demand is 0.
\<close>

theorem status_summarizer:
  assumes "projectStatus (calculateScenario clock baselineCapacity projects priorityOrder
              virtualResources timelineShifts months) projectId = Some s"
  shows "overallStatus s = Some (summarizer_rule (monthlyStatus s)) \<and>
         summarizer_rule (filter (\<lambda>(m, r). status r \<noteq> NoDemand) (monthlyStatus s)) =
           summarizer_rule (monthlyStatus s) \<and>
         (\<forall>(m, r)\<in>set (monthlyStatus s). status r = NoDemand \<longleftrightarrow> demand r = 0)"
proof -
  let ?pm = "project_map (applyTimelineShifts projects timelineShifts months)"
  let ?ec = "calculateEffectiveCapacity clock baselineCapacity virtualResources months"
  let ?st = "process_months ?pm priorityOrder months (init_state ?ec ?pm priorityOrder months)"
  from assms obtain s0 where s0: "st_projectStatus ?st projectId = Some s0" "s = summarize_project s0"
    by (auto simp add: calculateScenario_def Let_def)
  have "well_labelled ?st"
    by (rule process_months_well_labelled) (rule init_state_well_labelled)
  with s0(1) have lab: "\<forall>(m, r)\<in>set (monthlyStatus s0). status r = NoDemand \<longleftrightarrow> demand r = 0"
    unfolding well_labelled_def by blast
  have ms: "monthlyStatus s = monthlyStatus s0"
    and os: "overallStatus s = Some (overall_status (monthlyStatus s0))"
    by (simp_all add: s0(2) summarize_project_def)
  from overall_status_rule[OF lab] summarizer_rule_filter[OF lab] lab show ?thesis
    by (simp only: ms os)
qed

theorem status_summarizer_witness:
  "\<exists>s. projectStatus (calculateScenario (\<lambda>i. 0) [ex_bucket] ex_projects [''alpha'', ''beta''] []
                        ex_shifts ex_months) ''beta'' = Some s \<and>
       map (\<lambda>(m, r). (m, status r, demand r)) (monthlyStatus s) =
         [(''Jan'', NoDemand, 0), (''Feb'', Partial, 60), (''Mar'', Staffed, 50)] \<and>
       overallStatus s = Some Partial"
proof -
  let ?r = "calculateScenario (\<lambda>i. 0) [ex_bucket] ex_projects [''alpha'', ''beta''] [] ex_shifts ex_months"
  have "map_option (\<lambda>s. (map (\<lambda>(m, r). (m, status r, demand r)) (monthlyStatus s),
                            summarizer_rule (monthlyStatus s)))
          (projectStatus ?r ''beta'') =
        Some ([(''Jan'', NoDemand, 0), (''Feb'', Partial, 60), (''Mar'', Staffed, 50)], Partial)"
    by code_simp
  then obtain s where s: "projectStatus ?r ''beta'' = Some s"
    "map (\<lambda>(m, r). (m, status r, demand r)) (monthlyStatus s) =
         [(''Jan'', NoDemand, 0), (''Feb'', Partial, 60), (''Mar'', Staffed, 50)]"
    "summarizer_rule (monthlyStatus s) = Partial"
    by auto
  from status_summarizer[OF s(1)] s(3) have "overallStatus s = Some Partial"
    by simp
  with s(1,2) show ?thesis by (intro exI[of _ s] conjI)
qed

section \<open>Months are allocated independently\<close>

lemma remaining_after_other: "m' \<noteq> m \<Longrightarrow> remaining_after rc m' dem m = rc m"
  by (simp add: remaining_after_def sub_assign_def)

lemma remaining_after_same:
  "remaining_after rc m dem m =
     (if dem = 0 then rc m
      else if dem \<le> num_or_zero (rc m) then
        Some (case rc m of Some (Num v) \<Rightarrow> Num (v - dem) | _ \<Rightarrow> NaN)
      else if 0 < num_or_zero (rc m) then Some (Num 0)
      else rc m)"
  by (simp add: remaining_after_def sub_assign_def)

lemma month_view_other_month:
  assumes "m' \<noteq> m"
  shows "month_view m (process_project projectMap m' projectId st) = month_view m st"
proof (cases "projectMap projectId")
  case None
  then show ?thesis by (simp add: process_project_unknown)
next
  case (Some p)
  have "map_option (\<lambda>rc. rc m) (remainingCapacity (process_project projectMap m' projectId st) key)
      = map_option (\<lambda>rc. rc m) (remainingCapacity st key)" for key
    using assms by (simp add: process_project_remaining[where projectMap = projectMap, OF Some] remaining_after_other split: option.splits)
  moreover have "map_option (\<lambda>s. map_of (monthlyStatus s) m)
        (st_projectStatus (process_project projectMap m' projectId st) pid)
      = map_option (\<lambda>s. map_of (monthlyStatus s) m) (st_projectStatus st pid)" for pid
    using assms by (simp add: process_project_status[where projectMap = projectMap, OF Some] update_conv' split: option.splits)
  ultimately show ?thesis by (simp add: month_view_def)
qed

lemma month_view_available:
  "month_view m st = month_view m st' \<Longrightarrow> available_in st key m = available_in st' key m"
proof -
  assume "month_view m st = month_view m st'"
  then have "map_option (\<lambda>rc. rc m) (remainingCapacity st key) =
             map_option (\<lambda>rc. rc m) (remainingCapacity st' key)"
    by (simp add: month_view_def fun_eq_iff)
  then show ?thesis
    by (auto simp add: available_in_def split: option.splits)
qed

lemma month_view_same_month:
  assumes "same_in_month m projectMap projectMap'" and "month_view m st = month_view m st'"
  shows "month_view m (process_project projectMap m projectId st) =
         month_view m (process_project projectMap' m projectId st')"
proof -
  from assms(2) have rc: "map_option (\<lambda>rc. rc m) (remainingCapacity st key) =
             map_option (\<lambda>rc. rc m) (remainingCapacity st' key)" for key
    by (simp add: month_view_def fun_eq_iff)
  from assms(2) have ps: "map_option (\<lambda>s. map_of (monthlyStatus s) m) (st_projectStatus st pid) =
             map_option (\<lambda>s. map_of (monthlyStatus s) m) (st_projectStatus st' pid)" for pid
    by (simp add: month_view_def fun_eq_iff)
  from assms(1) have pm: "map_option (\<lambda>p. (project_bucket_key p, demand_in p m)) (projectMap projectId) =
            map_option (\<lambda>p. (project_bucket_key p, demand_in p m)) (projectMap' projectId)"
    by (simp add: same_in_month_def)
  show ?thesis
  proof (cases "projectMap projectId")
    case None
    with pm have "projectMap' projectId = None" by simp
    with None assms(2) show ?thesis by (simp add: process_project_unknown)
  next
    case (Some p)
    with pm obtain p' where p': "projectMap' projectId = Some p'"
      "project_bucket_key p' = project_bucket_key p" "demand_in p' m = demand_in p m"
      by (cases "projectMap' projectId") auto
    have av: "available_in st' (project_bucket_key p) m = available_in st (project_bucket_key p) m"
      using month_view_available[OF assms(2)] by simp
    have "map_option (\<lambda>rc. rc m) (remainingCapacity (process_project projectMap m projectId st) key)
      = map_option (\<lambda>rc. rc m) (remainingCapacity (process_project projectMap' m projectId st') key)" for key
    proof (cases "remainingCapacity st (project_bucket_key p)")
      case None
      with rc[of "project_bucket_key p"] have "remainingCapacity st' (project_bucket_key p) = None"
        by simp
      with None rc[of key] show ?thesis
        by (simp add: process_project_remaining[where projectMap = projectMap, OF Some]
            process_project_remaining[where projectMap = projectMap', OF p'(1)] p'(2,3))
    next
      case (Some x)
      with rc[of "project_bucket_key p"] obtain y where
        y: "remainingCapacity st' (project_bucket_key p) = Some y" "x m = y m"
        by (cases "remainingCapacity st' (project_bucket_key p)") auto
      from y(2) have "remaining_after x m (demand_in p m) m = remaining_after y m (demand_in p m) m"
        by (simp add: remaining_after_same)
      with Some y(1) rc[of key] show ?thesis
        by (simp add: process_project_remaining[where projectMap = projectMap, OF \<open>projectMap projectId = Some p\<close>]
            process_project_remaining[where projectMap = projectMap', OF p'(1)] p'(2,3))
    qed
    moreover have "map_option (\<lambda>s. map_of (monthlyStatus s) m)
        (st_projectStatus (process_project projectMap m projectId st) pid)
      = map_option (\<lambda>s. map_of (monthlyStatus s) m)
        (st_projectStatus (process_project projectMap' m projectId st') pid)" for pid
    proof (cases "st_projectStatus st projectId")
      case None
      with ps[of projectId] have "st_projectStatus st' projectId = None"
        by simp
      with None ps[of pid] show ?thesis
        by (simp add: process_project_status[where projectMap = projectMap, OF Some]
            process_project_status[where projectMap = projectMap', OF p'(1)])
    next
      case (Some x)
      with ps[of projectId] obtain y where y: "st_projectStatus st' projectId = Some y"
        by (cases "st_projectStatus st' projectId") auto
      with Some ps[of pid] show ?thesis
        by (simp add: process_project_status[where projectMap = projectMap, OF \<open>projectMap projectId = Some p\<close>]
            process_project_status[where projectMap = projectMap', OF p'(1)] p'(2,3) av update_conv')
    qed
    ultimately show ?thesis by (simp add: month_view_def)
  qed
qed

lemma process_month_view_other:
  assumes "m' \<noteq> m"
  shows "month_view m (process_month projectMap priorityOrder m' st) = month_view m st"
  unfolding process_month_def
  by (induction priorityOrder arbitrary: st) (simp_all add: month_view_other_month[OF assms])

lemma process_month_view_same:
  assumes "same_in_month m projectMap projectMap'" and "month_view m st = month_view m st'"
  shows "month_view m (process_month projectMap priorityOrder m st) =
         month_view m (process_month projectMap' priorityOrder m st')"
  unfolding process_month_def
  using assms(2)
proof (induction priorityOrder arbitrary: st st')
  case Nil
  then show ?case by simp
next
  case (Cons a priorityOrder)
  from month_view_same_month[OF assms(1) Cons.prems, of a] Cons.IH show ?case by simp
qed

lemma same_in_month_refl: "same_in_month m projectMap projectMap"
  by (simp add: same_in_month_def)

lemma process_months_view_filter:
  assumes "month_view m st = month_view m st'"
  shows "month_view m (process_months projectMap priorityOrder months st) =
         month_view m (process_months projectMap priorityOrder (filter (\<lambda>x. x = m) months) st')"
  unfolding process_months_def
  using assms
proof (induction months arbitrary: st st')
  case Nil
  then show ?case by simp
next
  case (Cons a months)
  show ?case
  proof (cases "a = m")
    case True
    from process_month_view_same[OF same_in_month_refl Cons.prems, of projectMap priorityOrder]
    have "month_view m (process_month projectMap priorityOrder m st) =
          month_view m (process_month projectMap priorityOrder m st')" .
    from Cons.IH[OF this] True show ?thesis by simp
  next
    case False
    then have "month_view m (process_month projectMap priorityOrder a st) = month_view m st'"
      using Cons.prems by (simp add: process_month_view_other)
    from Cons.IH[OF this] False show ?thesis by simp
  qed
qed

lemma process_months_view_repeat:
  assumes "same_in_month m projectMap projectMap'" and "month_view m st = month_view m st'"
  shows "month_view m (process_months projectMap priorityOrder (replicate n m) st) =
         month_view m (process_months projectMap' priorityOrder (replicate n m) st')"
  unfolding process_months_def
  using assms(2)
proof (induction n arbitrary: st st')
  case 0
  then show ?case by simp
next
  case (Suc n)
  from process_month_view_same[OF assms(1) Suc.prems, of priorityOrder]
  have "month_view m (process_month projectMap priorityOrder m st) =
        month_view m (process_month projectMap' priorityOrder m st')" .
  from Suc.IH[OF this] show ?case by simp
qed

lemma filter_eq_replicate: "filter (\<lambda>x. x = m) xs = replicate (length (filter (\<lambda>x. x = m) xs)) m"
  by (induction xs) auto

lemma init_state_view:
  assumes "\<forall>key. map_option (\<lambda>b. monthly_capacity b m) (ec key) =
                 map_option (\<lambda>b. monthly_capacity b m) (ec' key)"
    and "same_in_month m projectMap projectMap'"
  shows "month_view m (init_state ec projectMap priorityOrder months) =
         month_view m (init_state ec' projectMap' priorityOrder months')"
proof -
  have "map_option (\<lambda>rc. rc m) (init_remaining ec key) = map_option (\<lambda>rc. rc m) (init_remaining ec' key)"
    for key
  proof -
    have "map_option (\<lambda>rc. rc m) (init_remaining e key) =
          map_option (map_option Num) (map_option (\<lambda>b. monthly_capacity b m) (e key))"
      for e :: "bucket_key \<rightharpoonup> bucket"
      by (simp add: init_remaining_def option.map_comp comp_def)
    from this[of ec] this[of ec'] assms(1) show ?thesis by (simp only:)
  qed
  moreover have "map_option (\<lambda>s. map_of (monthlyStatus s) m) (init_project_status projectMap priorityOrder pid) =
        map_option (\<lambda>s. map_of (monthlyStatus s) m) (init_project_status projectMap' priorityOrder pid)"
    for pid
  proof -
    have none: "projectMap pid = None \<longleftrightarrow> projectMap' pid = None"
    proof -
      from assms(2) have "map_option (\<lambda>p. (project_bucket_key p, demand_in p m)) (projectMap pid) =
            map_option (\<lambda>p. (project_bucket_key p, demand_in p m)) (projectMap' pid)"
        by (simp add: same_in_month_def)
      then show ?thesis by (cases "projectMap pid"; cases "projectMap' pid") simp_all
    qed
    have "map_option (\<lambda>s. map_of (monthlyStatus s) m) (init_project_status pm priorityOrder pid) =
          (if pid \<notin> set priorityOrder \<or> pm pid = None then None else Some None)"
      for pm :: "project_ident \<rightharpoonup> project"
    proof (cases "init_project_status pm priorityOrder pid")
      case None
      then show ?thesis by (simp add: init_project_status_defined)
    next
      case (Some s)
      then have "\<not> (pid \<notin> set priorityOrder \<or> pm pid = None)"
        using init_project_status_defined[of pm priorityOrder pid] by simp
      with Some init_project_status_Some[OF Some] show ?thesis by simp
    qed
    from this[of projectMap] this[of projectMap'] none show ?thesis by (simp only:)
  qed
  ultimately show ?thesis by (simp add: month_view_def init_state_def)
qed

lemma month_view_result:
  "map_option (\<lambda>s. map_of (monthlyStatus s) m)
     (projectStatus (calculateScenario clock baselineCapacity projects priorityOrder
        virtualResources timelineShifts months) pid) =
   snd (month_view m
     (process_months (project_map (applyTimelineShifts projects timelineShifts months)) priorityOrder months
        (init_state (calculateEffectiveCapacity clock baselineCapacity virtualResources months)
           (project_map (applyTimelineShifts projects timelineShifts months)) priorityOrder months))) pid"
  by (simp add: calculateScenario_def Let_def month_view_def option.map_comp comp_def summarize_project_def)

text \<open>
  Claim C3: the month records of a month \<open>m\<close> (status, demand, allocated, deficit of every
  project) are the same in two runs whose effective capacities and shifted demands agree in
  month \<open>m\<close> and whose month lists hold \<open>m\<close> equally often, whatever the capacities,
  demands and consumption of the other months are; and they are the records that the passes
  for \<open>m\<close> alone compute from the initial remaining capacity, the copy of the effective
  capacity.
\<close>

theorem no_cross_month_banking:
  assumes "\<forall>key. map_option (\<lambda>b. monthly_capacity b m)
                   (calculateEffectiveCapacity clock baselineCapacity virtualResources months key) =
                 map_option (\<lambda>b. monthly_capacity b m)
                   (calculateEffectiveCapacity clock' baselineCapacity' virtualResources' months' key)"
    and "same_in_month m (project_map (applyTimelineShifts projects timelineShifts months))
           (project_map (applyTimelineShifts projects' timelineShifts' months'))"
    and "filter (\<lambda>x. x = m) months = filter (\<lambda>x. x = m) months'"
  shows "map_option (\<lambda>s. map_of (monthlyStatus s) m)
           (projectStatus (calculateScenario clock baselineCapacity projects priorityOrder
              virtualResources timelineShifts months) pid) =
         map_option (\<lambda>s. map_of (monthlyStatus s) m)
           (projectStatus (calculateScenario clock' baselineCapacity' projects' priorityOrder
              virtualResources' timelineShifts' months') pid) \<and>
         map_option (\<lambda>s. map_of (monthlyStatus s) m)
           (projectStatus (calculateScenario clock baselineCapacity projects priorityOrder
              virtualResources timelineShifts months) pid) =
         map_option (\<lambda>s. map_of (monthlyStatus s) m)
           (st_projectStatus
              (process_months (project_map (applyTimelineShifts projects timelineShifts months))
                 priorityOrder (filter (\<lambda>x. x = m) months)
                 (init_state (calculateEffectiveCapacity clock baselineCapacity virtualResources months)
                    (project_map (applyTimelineShifts projects timelineShifts months))
                    priorityOrder months)) pid)"
proof -
  let ?ec = "calculateEffectiveCapacity clock baselineCapacity virtualResources months"
  let ?ec' = "calculateEffectiveCapacity clock' baselineCapacity' virtualResources' months'"
  let ?pm = "project_map (applyTimelineShifts projects timelineShifts months)"
  let ?pm' = "project_map (applyTimelineShifts projects' timelineShifts' months')"
  let ?st = "init_state ?ec ?pm priorityOrder months"
  let ?st' = "init_state ?ec' ?pm' priorityOrder months'"
  let ?only = "filter (\<lambda>x. x = m) months"
  obtain n where n: "?only = replicate n m"
    using filter_eq_replicate[of m months] by blast
  have a: "month_view m (process_months ?pm priorityOrder months ?st) =
           month_view m (process_months ?pm priorityOrder ?only ?st)"
    by (rule process_months_view_filter) simp
  have b: "month_view m (process_months ?pm' priorityOrder months' ?st') =
           month_view m (process_months ?pm' priorityOrder ?only ?st')"
    using process_months_view_filter[of m ?st' ?st' ?pm' priorityOrder months'] assms(3) by simp
  have "month_view m ?st = month_view m ?st'"
    using assms(1,2) by (rule init_state_view)
  with assms(2) have c: "month_view m (process_months ?pm priorityOrder ?only ?st) =
           month_view m (process_months ?pm' priorityOrder ?only ?st')"
    unfolding n by (rule process_months_view_repeat)
  from a b c have "month_view m (process_months ?pm priorityOrder months ?st) =
           month_view m (process_months ?pm' priorityOrder months' ?st')"
    by simp
  then have "snd (month_view m (process_months ?pm priorityOrder months ?st)) pid =
           snd (month_view m (process_months ?pm' priorityOrder months' ?st')) pid"
    by simp
  moreover from a have "snd (month_view m (process_months ?pm priorityOrder months ?st)) pid =
           snd (month_view m (process_months ?pm priorityOrder ?only ?st)) pid"
    by simp
  ultimately show ?thesis
    unfolding month_view_result by (simp only: month_view_def snd_conv)
qed


theorem no_cross_month_banking_witness:
  "(\<forall>key. map_option (\<lambda>b. monthly_capacity b ''Feb'')
            (calculateEffectiveCapacity (\<lambda>i. 0) [ex_bucket] [] ex_months key) =
          map_option (\<lambda>b. monthly_capacity b ''Feb'')
            (calculateEffectiveCapacity (\<lambda>i. 0) [ex_bucket_surplus] [] ex_months key)) \<and>
   same_in_month ''Feb'' (project_map (applyTimelineShifts ex_projects Map.empty ex_months))
     (project_map (applyTimelineShifts [ex_alpha_light, ex_beta] Map.empty ex_months)) \<and>
   map_option (\<lambda>b. monthly_capacity b ''Jan'')
     (calculateEffectiveCapacity (\<lambda>i. 0) [ex_bucket] [] ex_months ''digital|developer|london'') = Some (Some 100) \<and>
   map_option (\<lambda>b. monthly_capacity b ''Jan'')
     (calculateEffectiveCapacity (\<lambda>i. 0) [ex_bucket_surplus] [] ex_months ''digital|developer|london'') = Some (Some 500) \<and>
   map_option (\<lambda>s. map_of (monthlyStatus s) ''Feb'')
     (projectStatus (calculateScenario (\<lambda>i. 0) [ex_bucket] ex_projects [''alpha'', ''beta''] []
        Map.empty ex_months) ''beta'') =
     Some (Some \<lparr>status = Partial, demand = 50, allocated = 20, deficit = 30\<rparr>) \<and>
   map_option (\<lambda>s. map_of (monthlyStatus s) ''Feb'')
     (projectStatus (calculateScenario (\<lambda>i. 0) [ex_bucket_surplus] [ex_alpha_light, ex_beta]
        [''alpha'', ''beta''] [] Map.empty ex_months) ''beta'') =
     Some (Some \<lparr>status = Partial, demand = 50, allocated = 20, deficit = 30\<rparr>)"
proof -
  have k: "getBucketKey ''Digital'' ''Developer'' ''London'' = ''digital|developer|london''"
    by code_simp
  have h1: "\<forall>key. map_option (\<lambda>b. monthly_capacity b ''Feb'')
            (calculateEffectiveCapacity (\<lambda>i. 0) [ex_bucket] [] ex_months key) =
          map_option (\<lambda>b. monthly_capacity b ''Feb'')
            (calculateEffectiveCapacity (\<lambda>i. 0) [ex_bucket_surplus] [] ex_months key)"
    by (simp add: calculateEffectiveCapacity_def add_baseline_bucket_def ex_bucket_def
        ex_bucket_surplus_def k)
  have h2: "same_in_month ''Feb'' (project_map (applyTimelineShifts ex_projects Map.empty ex_months))
     (project_map (applyTimelineShifts [ex_alpha_light, ex_beta] Map.empty ex_months))"
    by (simp add: same_in_month_def project_map_def applyTimelineShifts_def shift_project_def
        ex_projects_def ex_alpha_def ex_alpha_light_def ex_beta_def project_bucket_key_def demand_in_def)
  have h3: "filter (\<lambda>x. x = ''Feb'') ex_months = filter (\<lambda>x. x = ''Feb'') ex_months"
    by simp
  have c1: "map_option (\<lambda>b. monthly_capacity b ''Jan'')
     (calculateEffectiveCapacity (\<lambda>i. 0) [ex_bucket] [] ex_months ''digital|developer|london'') = Some (Some 100)"
    by code_simp
  have c2: "map_option (\<lambda>b. monthly_capacity b ''Jan'')
     (calculateEffectiveCapacity (\<lambda>i. 0) [ex_bucket_surplus] [] ex_months ''digital|developer|london'') = Some (Some 500)"
    by code_simp
  have e: "map_option (\<lambda>s. map_of (monthlyStatus s) ''Feb'')
     (projectStatus (calculateScenario (\<lambda>i. 0) [ex_bucket] ex_projects [''alpha'', ''beta''] []
        Map.empty ex_months) ''beta'') =
     Some (Some \<lparr>status = Partial, demand = 50, allocated = 20, deficit = 30\<rparr>)"
    by code_simp
  from no_cross_month_banking[where m = "''Feb''" and clock = "\<lambda>i. 0" and clock' = "\<lambda>i. 0"
      and baselineCapacity = "[ex_bucket]" and baselineCapacity' = "[ex_bucket_surplus]"
      and virtualResources = "[]" and virtualResources' = "[]" and months = ex_months
      and months' = ex_months and projects = ex_projects and projects' = "[ex_alpha_light, ex_beta]"
      and timelineShifts = Map.empty and timelineShifts' = Map.empty
      and priorityOrder = "[''alpha'', ''beta'']" and pid = "''beta''", OF h1 h2 h3]
  have "map_option (\<lambda>s. map_of (monthlyStatus s) ''Feb'')
     (projectStatus (calculateScenario (\<lambda>i. 0) [ex_bucket] ex_projects [''alpha'', ''beta''] []
        Map.empty ex_months) ''beta'') =
     map_option (\<lambda>s. map_of (monthlyStatus s) ''Feb'')
     (projectStatus (calculateScenario (\<lambda>i. 0) [ex_bucket_surplus] [ex_alpha_light, ex_beta]
        [''alpha'', ''beta''] [] Map.empty ex_months) ''beta'')"
    by (rule conjunct1)
  with e have "map_option (\<lambda>s. map_of (monthlyStatus s) ''Feb'')
     (projectStatus (calculateScenario (\<lambda>i. 0) [ex_bucket_surplus] [ex_alpha_light, ex_beta]
        [''alpha'', ''beta''] [] Map.empty ex_months) ''beta'') =
     Some (Some \<lparr>status = Partial, demand = 50, allocated = 20, deficit = 30\<rparr>)"
    by simp
  with h1 h2 c1 c2 e show ?thesis by (intro conjI)
qed

section \<open>Consumption never exceeds capacity\<close>


lemma num_or_zero_simps [simp]:
  "num_or_zero None = 0" "num_or_zero (Some NaN) = 0" "num_or_zero (Some (Num v)) = v"
  by (simp_all add: num_or_zero_def)
























section \<open>Priority order\<close>





















end
